theory Spec2Isabelle
  imports Main
begin

section \<open>SINMAM heart-rate dashboard: data model\<close>

text \<open>
  The dashboard is one React component, \<^verbatim>\<open>App\<close> in \<^verbatim>\<open>src/App.tsx\<close>. Its two
  interfaces become records. A TypeScript \<^verbatim>\<open>number\<close> is a double; the code only ever
  compares these numbers with the literals 100 and 60 and never computes with them, and
  the service contract declares them integers, so they are modelled as \<open>int\<close>, on which
  the two comparisons are exact.

  A JavaScript string is a sequence of UTF-16 code units. Every text the code produces
  is ASCII except for the letter i with acute accent (code unit \<open>0xED\<close>), written
  \<open>CHR 0xED\<close> below, one \<open>char\<close> for one code unit. The field \<^verbatim>\<open>id\<close> is named
  \<open>id_reading\<close>, since \<open>id\<close> is the identity function of HOL.
\<close>

record HeartRateReading =
  id_reading :: int
  hour :: string
  pulse :: int
  isRisky :: bool
  timestamp :: string

record HeartRateStats =
  last5Minutes :: int
  last15Minutes :: int
  last30Minutes :: int
  current :: int
  lastUpdated :: string

section \<open>Risk classification and the derived colours and labels\<close>

text \<open>
  \<^verbatim>\<open>getRiskLevel\<close> returns one of the three string literals \<^verbatim>\<open>'high'\<close>, \<^verbatim>\<open>'low'\<close>,
  \<^verbatim>\<open>'normal'\<close>; TypeScript infers the union of these literal types, modelled as a
  datatype.
\<close>

datatype risk = High | Low | Normal

definition getRiskLevel :: "int \<Rightarrow> risk" where
  "getRiskLevel p = (if p > 100 then High else if p < 60 then Low else Normal)"

definition getRiskColor :: "int \<Rightarrow> string" where
  "getRiskColor p =
     (case getRiskLevel p of
        High \<Rightarrow> ''text-red-600''
      | Low \<Rightarrow> ''text-blue-600''
      | _ \<Rightarrow> ''text-green-600'')"

definition getRiskBadgeColor :: "bool \<Rightarrow> string" where
  "getRiskBadgeColor r =
     (if r then ''bg-red-100 text-red-800 border-red-200''
      else ''bg-green-100 text-green-800 border-green-200'')"

definition getStatCardColor :: "int \<Rightarrow> string" where
  "getStatCardColor v =
     (if v > 100 then ''border-red-200 bg-red-50''
      else if v < 60 then ''border-blue-200 bg-blue-50''
      else ''border-green-200 bg-green-50'')"

text \<open>
  The JSX repeats the thresholds inline, once for the current pulse (lines 188 to 193)
  and once per table row (lines 312 to 317). Each inline expression is a function here,
  named after the place it is written at; only the interpolated part of a class
  attribute is modelled, the fixed prefix of the attribute is the same on every branch.
\<close>

definition heroBadgeClass :: "int \<Rightarrow> string" where
  "heroBadgeClass c =
     (if c > 100 then ''bg-red-100 text-red-800''
      else if c < 60 then ''bg-blue-100 text-blue-800''
      else ''bg-green-100 text-green-800'')"

definition heroBadgeLabel :: "int \<Rightarrow> string" where
  "heroBadgeLabel c = (if c > 100 then ''Elevado'' else if c < 60 then ''Bajo'' else ''Normal'')"

definition rowStatusClass :: "int \<Rightarrow> string" where
  "rowStatusClass p =
     (if p > 100 then ''bg-red-100 text-red-800''
      else if p < 60 then ''bg-blue-100 text-blue-800''
      else ''bg-green-100 text-green-800'')"

definition rowStatusLabel :: "int \<Rightarrow> string" where
  "rowStatusLabel p = (if p > 100 then ''Elevado'' else if p < 60 then ''Bajo'' else ''Normal'')"

text \<open>
  One table row (lines 296 to 328), as the values the JSX computes from a reading: the
  hour cell, the pulse cell with its colour, the status cell, and the cell of the
  server's flag with its warning icon, badge colour and text.
\<close>

record row_view =
  hourText :: string
  pulseValue :: int
  pulseColor :: string
  statusClass :: string
  statusLabel :: string
  riskyIcon :: bool
  riskyBadge :: string
  riskyText :: string

definition renderRow :: "HeartRateReading \<Rightarrow> row_view" where
  "renderRow reading =
     \<lparr> hourText = hour reading,
       pulseValue = pulse reading,
       pulseColor = getRiskColor (pulse reading),
       statusClass = rowStatusClass (pulse reading),
       statusLabel = rowStatusLabel (pulse reading),
       riskyIcon = isRisky reading,
       riskyBadge = getRiskBadgeColor (isRisky reading),
       riskyText = (if isRisky reading then ''S'' @ [CHR 0xED] else ''No'') \<rparr>"

section \<open>Application state\<close>

text \<open>
  The four \<^verbatim>\<open>useState\<close> cells of the component. \<^verbatim>\<open>response.json()\<close> resolves to a
  value of type \<^verbatim>\<open>any\<close> and the setters store it as it comes, with no check against
  the declared interfaces, so the two data slices are type parameters: the code treats
  the parsed body as an opaque value. At the declared types the state is
  \<open>(HeartRateStats, HeartRateReading list) app_state\<close>.
\<close>

record ('s, 'r) app_state =
  stats :: 's
  readings :: 'r
  loading :: bool
  error :: "string option"

definition setStats :: "'s \<Rightarrow> ('s, 'r) app_state \<Rightarrow> ('s, 'r) app_state" where
  "setStats d s = s\<lparr>stats := d\<rparr>"

definition setReadings :: "'r \<Rightarrow> ('s, 'r) app_state \<Rightarrow> ('s, 'r) app_state" where
  "setReadings d s = s\<lparr>readings := d\<rparr>"

definition setLoading :: "bool \<Rightarrow> ('s, 'r) app_state \<Rightarrow> ('s, 'r) app_state" where
  "setLoading b s = s\<lparr>loading := b\<rparr>"

definition setError :: "string option \<Rightarrow> ('s, 'r) app_state \<Rightarrow> ('s, 'r) app_state" where
  "setError e s = s\<lparr>error := e\<rparr>"

text \<open>
  The initial values of the four cells (lines 24 to 38). \<open>now\<close> is the text that
  \<^verbatim>\<open>new Date().toLocaleTimeString('es-ES', ...)\<close> gives when the component is built.
\<close>

definition initial_state :: "string \<Rightarrow> (HeartRateStats, HeartRateReading list) app_state" where
  "initial_state now =
     \<lparr> stats = \<lparr> last5Minutes = 0, last15Minutes = 0, last30Minutes = 0,
                 current = 0, lastUpdated = now \<rparr>,
       readings = [],
       loading = True,
       error = None \<rparr>"

section \<open>The two fetches and the refresh cycle\<close>

text \<open>
  What the network gives a fetch is an input of the model. \<^verbatim>\<open>fetch\<close> either rejects
  with some thrown value, or resolves to a response with its \<^verbatim>\<open>ok\<close> flag;
  \<^verbatim>\<open>response.json()\<close> then either rejects (the body is not JSON) or resolves to the
  parsed value; for a response that is not ok the body is never read. A thrown value is
  an \<^verbatim>\<open>Error\<close> object with its message or anything else: the handlers test
  \<^verbatim>\<open>err instanceof Error\<close>. Both fetches of a cycle are taken to settle; a request
  that stays pending for ever is not an input of the model.
\<close>

datatype thrown = ErrorObj string | OtherValue

datatype 'a body = JsonRejected thrown | JsonResolved 'a

datatype 'a fetched = FetchRejected thrown | Response bool "'a body"

definition message_of :: "thrown \<Rightarrow> string" where
  "message_of err = (case err of ErrorObj m \<Rightarrow> m | OtherValue \<Rightarrow> ''Error desconocido'')"

definition stats_http_error :: string where
  "stats_http_error = ''Error al obtener estad'' @ [CHR 0xED] @ ''sticas''"

definition readings_http_error :: string where
  "readings_http_error = ''Error al obtener lecturas''"

text \<open>
  The \<^verbatim>\<open>try\<close> block of each fetch (lines 43 to 48 and 56 to 61): \<open>Inl\<close> is a throw out
  of the block, which leaves the state as it was, \<open>Inr\<close> the state after the setter.
\<close>

definition stats_try :: "'s fetched \<Rightarrow> ('s, 'r) app_state \<Rightarrow> thrown + ('s, 'r) app_state" where
  "stats_try resp s =
     (case resp of
        FetchRejected e \<Rightarrow> Inl e
      | Response ok b \<Rightarrow>
          if \<not> ok then Inl (ErrorObj stats_http_error)
          else (case b of
                  JsonRejected e \<Rightarrow> Inl e
                | JsonResolved data \<Rightarrow> Inr (setStats data s)))"

definition readings_try :: "'r fetched \<Rightarrow> ('s, 'r) app_state \<Rightarrow> thrown + ('s, 'r) app_state" where
  "readings_try resp s =
     (case resp of
        FetchRejected e \<Rightarrow> Inl e
      | Response ok b \<Rightarrow>
          if \<not> ok then Inl (ErrorObj readings_http_error)
          else (case b of
                  JsonRejected e \<Rightarrow> Inl e
                | JsonResolved data \<Rightarrow> Inr (setReadings data s)))"

text \<open>The whole functions: the \<^verbatim>\<open>catch\<close> clause turns every throw into \<^verbatim>\<open>setError\<close>.\<close>

definition fetchHeartRateStats ::
  "'s fetched \<Rightarrow> ('s, 'r) app_state \<Rightarrow> thrown + ('s, 'r) app_state" where
  "fetchHeartRateStats resp s =
     (case stats_try resp s of
        Inr s' \<Rightarrow> Inr s'
      | Inl err \<Rightarrow> Inr (setError (Some (message_of err)) s))"

definition fetchHeartRateReadings ::
  "'r fetched \<Rightarrow> ('s, 'r) app_state \<Rightarrow> thrown + ('s, 'r) app_state" where
  "fetchHeartRateReadings resp s =
     (case readings_try resp s of
        Inr s' \<Rightarrow> Inr s'
      | Inl err \<Rightarrow> Inr (setError (Some (message_of err)) s))"

text \<open>
  \<^verbatim>\<open>Promise.all\<close> starts both functions; each makes its one setter call when its own
  response has come, so the calls happen in the order in which the two settle, which is
  an input. The result is the state after both and the rejection of \<^verbatim>\<open>Promise.all\<close>,
  if any: the first rejection. A function that rejects has changed nothing, and the
  other one still runs to its end; its setter touches neither \<^verbatim>\<open>loading\<close> nor the
  other slice, so applying it before the \<^verbatim>\<open>finally\<close> block gives the same final state.
\<close>

datatype settle_order = StatsFirst | ReadingsFirst

definition promise_all ::
  "settle_order
   \<Rightarrow> (('s, 'r) app_state \<Rightarrow> thrown + ('s, 'r) app_state)
   \<Rightarrow> (('s, 'r) app_state \<Rightarrow> thrown + ('s, 'r) app_state)
   \<Rightarrow> ('s, 'r) app_state \<Rightarrow> ('s, 'r) app_state \<times> thrown option" where
  "promise_all ord statsTask readingsTask s =
     (let first = (case ord of StatsFirst \<Rightarrow> statsTask | ReadingsFirst \<Rightarrow> readingsTask);
          second = (case ord of StatsFirst \<Rightarrow> readingsTask | ReadingsFirst \<Rightarrow> statsTask)
      in case first s of
           Inr s1 \<Rightarrow> (case second s1 of Inr s2 \<Rightarrow> (s2, None) | Inl e \<Rightarrow> (s1, Some e))
         | Inl e \<Rightarrow> (case second s of Inr s2 \<Rightarrow> (s2, Some e) | Inl _ \<Rightarrow> (s, Some e)))"

text \<open>
  One cycle (lines 67 to 77). The \<^verbatim>\<open>catch\<close> clause only logs to the console and the
  \<^verbatim>\<open>finally\<close> block clears \<^verbatim>\<open>loading\<close> on both paths. \<open>Inl\<close> would be a fault out of
  \<^verbatim>\<open>fetchData\<close>.
\<close>

definition fetchData ::
  "settle_order \<Rightarrow> 's fetched \<Rightarrow> 'r fetched \<Rightarrow> ('s, 'r) app_state
   \<Rightarrow> thrown + ('s, 'r) app_state" where
  "fetchData ord statsResp readingsResp s =
     (let s1 = setLoading True s;
          s2 = setError None s1
      in case promise_all ord (fetchHeartRateStats statsResp)
                (fetchHeartRateReadings readingsResp) s2 of
           (s3, None) \<Rightarrow> Inr (setLoading False s3)
         | (s3, Some err) \<Rightarrow> Inr (setLoading False s3))"

text \<open>
  The two halves of a cycle: what \<^verbatim>\<open>fetchData\<close> does before it waits (lines 68 and
  69), and what it does once both fetches have settled (lines 70 to 76). \<^verbatim>\<open>fetchData\<close>
  is the second after the first.
\<close>

definition cycle_start :: "('s, 'r) app_state \<Rightarrow> ('s, 'r) app_state" where
  "cycle_start s = setError None (setLoading True s)"

definition cycle_settle ::
  "settle_order \<Rightarrow> 's fetched \<Rightarrow> 'r fetched \<Rightarrow> ('s, 'r) app_state
   \<Rightarrow> thrown + ('s, 'r) app_state" where
  "cycle_settle ord statsResp readingsResp s =
     (case promise_all ord (fetchHeartRateStats statsResp)
             (fetchHeartRateReadings readingsResp) s of
        (s3, None) \<Rightarrow> Inr (setLoading False s3)
      | (s3, Some err) \<Rightarrow> Inr (setLoading False s3))"






text \<open>
  Cycles in succession, each run to its end before the next starts, on the cells alone:
  what one cycle leaves is what the next one finds. The renders between the cycles and
  the teardown are not part of it. \<open>Inl\<close> reports a fault out of a cycle.
\<close>

type_synonym ('s, 'r) cycle_input = "settle_order \<times> 's fetched \<times> 'r fetched"

fun run_cycles ::
  "('s, 'r) cycle_input list \<Rightarrow> ('s, 'r) app_state \<Rightarrow> thrown + ('s, 'r) app_state" where
  "run_cycles [] s = Inr s"
| "run_cycles ((ord, a, b) # cs) s =
     (case fetchData ord a b s of Inl e \<Rightarrow> Inl e | Inr s' \<Rightarrow> run_cycles cs s')"

text \<open>
  How a response is read from outside: the body a fetch delivers when it succeeds, and
  the message it fails with otherwise. \<open>http\<close> is the fixed text of the fetch for a
  status that is not a success.
\<close>

definition delivered :: "'a fetched \<Rightarrow> 'a option" where
  "delivered resp =
     (case resp of
        Response True (JsonResolved data) \<Rightarrow> Some data
      | _ \<Rightarrow> None)"

definition failure :: "string \<Rightarrow> 'a fetched \<Rightarrow> string option" where
  "failure http resp =
     (case resp of
        FetchRejected e \<Rightarrow> Some (message_of e)
      | Response ok b \<Rightarrow>
          if \<not> ok then Some http
          else (case b of JsonRejected e \<Rightarrow> Some (message_of e) | JsonResolved _ \<Rightarrow> None))"

section \<open>Parsed bodies as JSON values\<close>

text \<open>
  The values \<^verbatim>\<open>response.json()\<close> can resolve to, and the shape the interfaces of lines
  4 to 18 declare for the two bodies. The code itself never tests the shape; these
  predicates only say which bodies have it. Numbers are the integers of the service
  contract.
\<close>

datatype json =
  JNull | JBool bool | JNum int | JStr string | JArr "json list" | JObj "(string \<times> json) list"

definition num_field :: "(string \<times> json) list \<Rightarrow> string \<Rightarrow> bool" where
  "num_field fs k = (case map_of fs k of Some (JNum _) \<Rightarrow> True | _ \<Rightarrow> False)"

definition str_field :: "(string \<times> json) list \<Rightarrow> string \<Rightarrow> bool" where
  "str_field fs k = (case map_of fs k of Some (JStr _) \<Rightarrow> True | _ \<Rightarrow> False)"

definition bool_field :: "(string \<times> json) list \<Rightarrow> string \<Rightarrow> bool" where
  "bool_field fs k = (case map_of fs k of Some (JBool _) \<Rightarrow> True | _ \<Rightarrow> False)"

definition is_HeartRateStats :: "json \<Rightarrow> bool" where
  "is_HeartRateStats j =
     (case j of
        JObj fs \<Rightarrow>
          num_field fs ''last5Minutes'' \<and> num_field fs ''last15Minutes''
          \<and> num_field fs ''last30Minutes'' \<and> num_field fs ''current''
          \<and> str_field fs ''lastUpdated''
      | _ \<Rightarrow> False)"

definition is_HeartRateReading :: "json \<Rightarrow> bool" where
  "is_HeartRateReading j =
     (case j of
        JObj fs \<Rightarrow>
          num_field fs ''id'' \<and> str_field fs ''hour'' \<and> num_field fs ''pulse''
          \<and> bool_field fs ''isRisky'' \<and> str_field fs ''timestamp''
      | _ \<Rightarrow> False)"

definition is_HeartRateReadings :: "json \<Rightarrow> bool" where
  "is_HeartRateReadings j = (case j of JArr xs \<Rightarrow> list_all is_HeartRateReading xs | _ \<Rightarrow> False)"

section \<open>What a fetch and a cycle compute\<close>

text \<open>
  Each fetch function makes exactly one setter call and never throws: it stores the
  delivered body, or else the message of its failure. A whole cycle is then a closed
  expression of what the two fetches received and of the order in which they settled.
\<close>

lemmas setters = setStats_def setReadings_def setLoading_def setError_def

lemma fetchHeartRateStats_eq:
  "fetchHeartRateStats a s =
     Inr (case delivered a of
            Some d \<Rightarrow> s\<lparr>stats := d\<rparr>
          | None \<Rightarrow> s\<lparr>error := failure stats_http_error a\<rparr>)"
  by (simp add: fetchHeartRateStats_def stats_try_def delivered_def failure_def message_of_def setters
      split: fetched.splits body.splits bool.splits)

lemma fetchHeartRateReadings_eq:
  "fetchHeartRateReadings b s =
     Inr (case delivered b of
            Some d \<Rightarrow> s\<lparr>readings := d\<rparr>
          | None \<Rightarrow> s\<lparr>error := failure readings_http_error b\<rparr>)"
  by (simp add: fetchHeartRateReadings_def readings_try_def delivered_def failure_def message_of_def setters
      split: fetched.splits body.splits bool.splits)

lemma failure_delivered: "(failure h a = None) = (delivered a \<noteq> None)"
  by (simp add: delivered_def failure_def split: fetched.splits body.splits bool.splits)

lemma fetchData_eq:
  "fetchData ord a b s =
     Inr \<lparr> stats = (case delivered a of Some d \<Rightarrow> d | None \<Rightarrow> stats s),
           readings = (case delivered b of Some d \<Rightarrow> d | None \<Rightarrow> readings s),
           loading = False,
           error = (case ord of
                      StatsFirst \<Rightarrow>
                        (case failure readings_http_error b of
                           Some m \<Rightarrow> Some m | None \<Rightarrow> failure stats_http_error a)
                    | ReadingsFirst \<Rightarrow>
                        (case failure stats_http_error a of
                           Some m \<Rightarrow> Some m | None \<Rightarrow> failure readings_http_error b)) \<rparr>"
proof -
  have fa: "delivered a = None \<Longrightarrow> \<exists>m. failure stats_http_error a = Some m"
    using failure_delivered [of stats_http_error a] by auto
  have fb: "delivered b = None \<Longrightarrow> \<exists>m. failure readings_http_error b = Some m"
    using failure_delivered [of readings_http_error b] by auto
  have da: "\<And>d. delivered a = Some d \<Longrightarrow> failure stats_http_error a = None"
    using failure_delivered [of stats_http_error a] by auto
  have db: "\<And>d. delivered b = Some d \<Longrightarrow> failure readings_http_error b = None"
    using failure_delivered [of readings_http_error b] by auto
  show ?thesis
    by (cases ord; cases "delivered a"; cases "delivered b")
       (auto simp: fetchData_def promise_all_def fetchHeartRateStats_eq
          fetchHeartRateReadings_eq setters Let_def da db dest: fa fb)
qed

lemma fetchData_phases: "fetchData ord a b s = cycle_settle ord a b (cycle_start s)"
  by (simp add: fetchData_def cycle_settle_def cycle_start_def Let_def)


lemma fetchData_returns:
  "(\<exists>s'. fetchHeartRateStats a s = Inr s')
   \<and> (\<exists>s'. fetchHeartRateReadings b s = Inr s')
   \<and> snd (promise_all ord (fetchHeartRateStats a) (fetchHeartRateReadings b) s) = None
   \<and> (\<exists>s'. fetchData ord a b s = Inr s' \<and> \<not> loading s')"
proof -
  have joined: "snd (promise_all ord (fetchHeartRateStats a) (fetchHeartRateReadings b) s) = None"
    by (simp add: promise_all_def fetchHeartRateStats_eq fetchHeartRateReadings_eq Let_def
        split: settle_order.splits)
  then show ?thesis
    by (simp add: fetchData_eq fetchHeartRateStats_eq fetchHeartRateReadings_eq)
qed

lemma json_rejected_is_failure:
  "fetchHeartRateStats (Response True (JsonRejected e)) s = Inr (s\<lparr>error := Some (message_of e)\<rparr>)
   \<and> fetchHeartRateReadings (Response True (JsonRejected e)) s
       = Inr (s\<lparr>error := Some (message_of e)\<rparr>)"
  by (simp add: fetchHeartRateStats_eq fetchHeartRateReadings_eq delivered_def failure_def)

section \<open>Properties of the classification\<close>

text \<open>
  Claim C1. For every integer pulse value \<open>p\<close>, the classification is \<open>High\<close> exactly
  when \<open>p > 100\<close>, \<open>Low\<close> exactly when \<open>p < 60\<close> and \<open>Normal\<close> exactly when
  \<open>60 \<le> p \<le> 100\<close>; at the boundaries, 60 and 100 are normal, 101 is high and 59 is
  low.
\<close>

theorem getRiskLevel_thresholds:
  "(getRiskLevel p = High \<longleftrightarrow> p > 100)
   \<and> (getRiskLevel p = Low \<longleftrightarrow> p < 60)
   \<and> (getRiskLevel p = Normal \<longleftrightarrow> 60 \<le> p \<and> p \<le> 100)
   \<and> getRiskLevel 60 = Normal \<and> getRiskLevel 100 = Normal
   \<and> getRiskLevel 101 = High \<and> getRiskLevel 59 = Low"
  by (simp add: getRiskLevel_def)

text \<open>
  Claim C8. Two readings with the same pulse get the same local classification, the
  same pulse colour and the same status class and label, whatever their \<^verbatim>\<open>isRisky\<close>
  flags are; and two readings with the same \<^verbatim>\<open>isRisky\<close> flag get the same warning
  icon, badge colour and badge text, whatever their pulses are. The flag never reaches
  the classification, and the pulse never reaches the badge.
\<close>

theorem classification_ignores_isRisky:
  "(pulse r1 = pulse r2 \<longrightarrow>
      getRiskLevel (pulse r1) = getRiskLevel (pulse r2)
      \<and> pulseColor (renderRow r1) = pulseColor (renderRow r2)
      \<and> statusClass (renderRow r1) = statusClass (renderRow r2)
      \<and> statusLabel (renderRow r1) = statusLabel (renderRow r2))
   \<and> (isRisky r1 = isRisky r2 \<longrightarrow>
      riskyIcon (renderRow r1) = riskyIcon (renderRow r2)
      \<and> riskyBadge (renderRow r1) = riskyBadge (renderRow r2)
      \<and> riskyText (renderRow r1) = riskyText (renderRow r2))"
  by (simp add: renderRow_def)

text \<open>
  Witness for C8: two readings of pulse 55 with opposite flags are both labelled
  \<^verbatim>\<open>Bajo\<close>, and two flagged readings of pulse 55 and 150 carry the same badge text.
\<close>

theorem classification_ignores_isRisky_witness:
  "pulse \<lparr> id_reading = 1, hour = ''14:30'', pulse = 55, isRisky = True,
           timestamp = ''2025-01-11T14:30:00Z'' \<rparr>
     = pulse \<lparr> id_reading = 2, hour = ''14:15'', pulse = 55, isRisky = False,
               timestamp = ''2025-01-11T14:15:00Z'' \<rparr>
   \<and> statusLabel (renderRow \<lparr> id_reading = 1, hour = ''14:30'', pulse = 55, isRisky = True,
                               timestamp = ''2025-01-11T14:30:00Z'' \<rparr>)
     = statusLabel (renderRow \<lparr> id_reading = 2, hour = ''14:15'', pulse = 55, isRisky = False,
                                 timestamp = ''2025-01-11T14:15:00Z'' \<rparr>)
   \<and> statusLabel (renderRow \<lparr> id_reading = 2, hour = ''14:15'', pulse = 55, isRisky = False,
                               timestamp = ''2025-01-11T14:15:00Z'' \<rparr>) = ''Bajo''
   \<and> isRisky \<lparr> id_reading = 1, hour = ''14:30'', pulse = 55, isRisky = True,
               timestamp = ''2025-01-11T14:30:00Z'' \<rparr>
     = isRisky \<lparr> id_reading = 3, hour = ''14:00'', pulse = 150, isRisky = True,
                 timestamp = ''2025-01-11T14:00:00Z'' \<rparr>
   \<and> riskyText (renderRow \<lparr> id_reading = 1, hour = ''14:30'', pulse = 55, isRisky = True,
                             timestamp = ''2025-01-11T14:30:00Z'' \<rparr>)
     = riskyText (renderRow \<lparr> id_reading = 3, hour = ''14:00'', pulse = 150, isRisky = True,
                               timestamp = ''2025-01-11T14:00:00Z'' \<rparr>)"
  using classification_ignores_isRisky
      [of "\<lparr> id_reading = 1, hour = ''14:30'', pulse = 55, isRisky = True,
             timestamp = ''2025-01-11T14:30:00Z'' \<rparr>"
          "\<lparr> id_reading = 2, hour = ''14:15'', pulse = 55, isRisky = False,
             timestamp = ''2025-01-11T14:15:00Z'' \<rparr>"]
    classification_ignores_isRisky
      [of "\<lparr> id_reading = 1, hour = ''14:30'', pulse = 55, isRisky = True,
             timestamp = ''2025-01-11T14:30:00Z'' \<rparr>"
          "\<lparr> id_reading = 3, hour = ''14:00'', pulse = 150, isRisky = True,
             timestamp = ''2025-01-11T14:00:00Z'' \<rparr>"]
  by (simp add: renderRow_def rowStatusLabel_def)

text \<open>
  Claim C9. For every integer \<open>v\<close>, the thresholds repeated inline in the JSX (label
  and class of the current pulse, label and class of a table row) and in
  \<^verbatim>\<open>getStatCardColor\<close> select the branch of the category \<open>getRiskLevel v\<close>, and
  \<^verbatim>\<open>getRiskColor\<close> selects its colour by that same result. The texts of the three
  branches differ, so the text shown identifies the category.
\<close>

theorem inline_thresholds_agree:
  "heroBadgeLabel v
     = (case getRiskLevel v of High \<Rightarrow> ''Elevado'' | Low \<Rightarrow> ''Bajo'' | Normal \<Rightarrow> ''Normal'')
   \<and> rowStatusLabel v
     = (case getRiskLevel v of High \<Rightarrow> ''Elevado'' | Low \<Rightarrow> ''Bajo'' | Normal \<Rightarrow> ''Normal'')
   \<and> heroBadgeClass v
     = (case getRiskLevel v of
          High \<Rightarrow> ''bg-red-100 text-red-800''
        | Low \<Rightarrow> ''bg-blue-100 text-blue-800''
        | Normal \<Rightarrow> ''bg-green-100 text-green-800'')
   \<and> rowStatusClass v
     = (case getRiskLevel v of
          High \<Rightarrow> ''bg-red-100 text-red-800''
        | Low \<Rightarrow> ''bg-blue-100 text-blue-800''
        | Normal \<Rightarrow> ''bg-green-100 text-green-800'')
   \<and> getStatCardColor v
     = (case getRiskLevel v of
          High \<Rightarrow> ''border-red-200 bg-red-50''
        | Low \<Rightarrow> ''border-blue-200 bg-blue-50''
        | Normal \<Rightarrow> ''border-green-200 bg-green-50'')
   \<and> getRiskColor v
     = (case getRiskLevel v of
          High \<Rightarrow> ''text-red-600''
        | Low \<Rightarrow> ''text-blue-600''
        | Normal \<Rightarrow> ''text-green-600'')
   \<and> (heroBadgeLabel v = ''Elevado'' \<longleftrightarrow> getRiskLevel v = High)
   \<and> (heroBadgeLabel v = ''Bajo'' \<longleftrightarrow> getRiskLevel v = Low)
   \<and> (heroBadgeLabel v = ''Normal'' \<longleftrightarrow> getRiskLevel v = Normal)
   \<and> (getStatCardColor v = ''border-red-200 bg-red-50'' \<longleftrightarrow> getRiskLevel v = High)
   \<and> (getStatCardColor v = ''border-blue-200 bg-blue-50'' \<longleftrightarrow> getRiskLevel v = Low)
   \<and> (getStatCardColor v = ''border-green-200 bg-green-50'' \<longleftrightarrow> getRiskLevel v = Normal)"
  by (simp add: heroBadgeLabel_def rowStatusLabel_def heroBadgeClass_def rowStatusClass_def
      getStatCardColor_def getRiskColor_def getRiskLevel_def)

section \<open>Properties of the state and of the refresh cycle\<close>

text \<open>
  Claim C10. Before any cycle has committed, the state holds a statistics snapshot
  whose three averages and current value are 0 and whose \<^verbatim>\<open>lastUpdated\<close> is the time
  of construction, no readings, \<^verbatim>\<open>loading\<close> true and no error; the current value 0
  classifies as low.
\<close>

theorem initial_state_values:
  "last5Minutes (stats (initial_state now)) = 0
   \<and> last15Minutes (stats (initial_state now)) = 0
   \<and> last30Minutes (stats (initial_state now)) = 0
   \<and> current (stats (initial_state now)) = 0
   \<and> lastUpdated (stats (initial_state now)) = now
   \<and> readings (initial_state now) = []
   \<and> loading (initial_state now)
   \<and> error (initial_state now) = None
   \<and> getRiskLevel (current (stats (initial_state now))) = Low"
  by (simp add: initial_state_def getRiskLevel_def)

text \<open>
  Claim C2. When both fetches succeed, the cycle ends in the state whose statistics are
  exactly the parsed stats body and whose readings are exactly the parsed readings body
  (for a list, in the order received), with \<^verbatim>\<open>loading\<close> and the error cleared. The
  result does not mention the previous state: nothing of it is kept or merged.
\<close>

theorem both_succeed:
  "fetchData ord (Response True (JsonResolved d1)) (Response True (JsonResolved d2)) s
     = Inr \<lparr> stats = d1, readings = d2, loading = False, error = None \<rparr>"
  by (simp add: fetchData_eq delivered_def failure_def split: settle_order.splits)

text \<open>
  Claim C3, as amended. In every cycle a fetch that fails leaves its own slice as it
  was, so a slice changes only if its own fetch succeeded; and when at least one fetch
  fails, the error at the end of the cycle is the message of one of the failed fetches.
  That message is the fixed text of the fetch for a status that is not a success,
  \<^verbatim>\<open>Error desconocido\<close> for a thrown value that is not an \<^verbatim>\<open>Error\<close>, and otherwise the
  message of the thrown \<^verbatim>\<open>Error\<close>, passed on unchanged: it is empty only if a fetch
  failed by throwing an \<^verbatim>\<open>Error\<close> whose own message is empty.
\<close>

theorem failed_fetch_keeps_slice:
  "\<exists>s'. fetchData ord a b s = Inr s'
     \<and> (delivered a = None \<longrightarrow> stats s' = stats s)
     \<and> (delivered b = None \<longrightarrow> readings s' = readings s)
     \<and> (delivered a = None \<or> delivered b = None \<longrightarrow>
          (\<exists>m. error s' = Some m
             \<and> (failure stats_http_error a = Some m \<or> failure readings_http_error b = Some m)))
     \<and> (error s' = Some [] \<longrightarrow>
          a = FetchRejected (ErrorObj []) \<or> a = Response True (JsonRejected (ErrorObj []))
          \<or> b = FetchRejected (ErrorObj []) \<or> b = Response True (JsonRejected (ErrorObj [])))"
proof -
  have ne: "\<And>h r. failure h r = Some [] \<Longrightarrow> h \<noteq> [] \<Longrightarrow>
      r = FetchRejected (ErrorObj []) \<or> r = Response True (JsonRejected (ErrorObj []))"
    by (auto simp: failure_def message_of_def split: fetched.splits body.splits thrown.splits if_splits)
  have hs: "stats_http_error \<noteq> []" by (simp add: stats_http_error_def)
  have hr: "readings_http_error \<noteq> []" by (simp add: readings_http_error_def)
  have fa: "delivered a = None \<Longrightarrow> \<exists>m. failure stats_http_error a = Some m"
    using failure_delivered [of stats_http_error a] by auto
  have fb: "delivered b = None \<Longrightarrow> \<exists>m. failure readings_http_error b = Some m"
    using failure_delivered [of readings_http_error b] by auto
  define e where "e = (case ord of
                      StatsFirst \<Rightarrow>
                        (case failure readings_http_error b of
                           Some m \<Rightarrow> Some m | None \<Rightarrow> failure stats_http_error a)
                    | ReadingsFirst \<Rightarrow>
                        (case failure stats_http_error a of
                           Some m \<Rightarrow> Some m | None \<Rightarrow> failure readings_http_error b))"
  have e_cases: "e = failure stats_http_error a \<or> e = failure readings_http_error b"
    by (simp add: e_def split: settle_order.splits option.splits)
  have e_some: "delivered a = None \<or> delivered b = None \<Longrightarrow> e \<noteq> None"
    using fa fb by (auto simp: e_def split: settle_order.splits option.splits)
  have c3: "delivered a = None \<or> delivered b = None \<longrightarrow>
          (\<exists>m. e = Some m
             \<and> (failure stats_http_error a = Some m \<or> failure readings_http_error b = Some m))"
    using e_cases e_some by auto
  have c4: "e = Some [] \<longrightarrow>
          a = FetchRejected (ErrorObj []) \<or> a = Response True (JsonRejected (ErrorObj []))
          \<or> b = FetchRejected (ErrorObj []) \<or> b = Response True (JsonRejected (ErrorObj []))"
    using e_cases ne [OF _ hs, of a] ne [OF _ hr, of b] by auto
  show ?thesis
    using c3 c4 by (simp add: fetchData_eq e_def [symmetric])
qed

text \<open>
  Witness for C3: with the stats fetch rejected and the readings fetch answered by a
  failure status, both slices stay and a non-empty message is set; with the stats fetch
  rejected by an \<^verbatim>\<open>Error\<close> of empty message, the error set is the empty string.
\<close>

theorem failed_fetch_keeps_slice_witness:
  "delivered (FetchRejected (ErrorObj ''Failed to fetch'') :: HeartRateStats fetched) = None
   \<and> delivered (Response False (JsonResolved []) :: HeartRateReading list fetched) = None
   \<and> (\<exists>s'. fetchData StatsFirst (FetchRejected (ErrorObj ''Failed to fetch''))
                (Response False (JsonResolved [])) (initial_state ''12:00:00'') = Inr s'
          \<and> stats s' = stats (initial_state ''12:00:00'')
          \<and> readings s' = readings (initial_state ''12:00:00'')
          \<and> (\<exists>m. error s' = Some m \<and> m \<noteq> []))
   \<and> (\<exists>s'. fetchData StatsFirst (FetchRejected (ErrorObj []))
                (Response True (JsonResolved [])) (initial_state ''12:00:00'') = Inr s'
          \<and> error s' = Some [])"
  using failed_fetch_keeps_slice [of StatsFirst "FetchRejected (ErrorObj ''Failed to fetch'')"
      "Response False (JsonResolved [])" "initial_state ''12:00:00''"]
    failed_fetch_keeps_slice [of StatsFirst "FetchRejected (ErrorObj [])"
      "Response True (JsonResolved [])" "initial_state ''12:00:00''"]
  by (auto simp: delivered_def failure_def message_of_def fetchData_eq
      readings_http_error_def)

text \<open>
  Counterexample to C3 as stated: the stats fetch rejects with an \<^verbatim>\<open>Error\<close> whose
  message is empty while the readings fetch succeeds. A fetch has failed, and the error
  at the end of the cycle is the empty string, not a non-empty message.
\<close>

theorem empty_message_counterexample:
  "fetchData StatsFirst (FetchRejected (ErrorObj [])) (Response True (JsonResolved []))
      (initial_state ''12:00:00'')
     = Inr ((initial_state ''12:00:00'')\<lparr>loading := False, error := Some []\<rparr>)"
  by (simp add: fetchData_eq delivered_def failure_def message_of_def initial_state_def)



text \<open>
  Claim C5 asks that a response body which does not parse into the expected shape be a
  failure of its call, with the slice not updated and an error signalled. The code
  does so for a body that is not JSON (\<open>json_rejected_is_failure\<close>), but not for a
  JSON body of another shape. Evaluated at that input: the readings fetch answers with
  status ok and the object \<^verbatim>\<open>{"error": "unavailable"}\<close>, which is not an array of
  readings; the cycle replaces the readings slice, until then a well-shaped empty
  array, by that object and ends with no error.
\<close>

theorem wrong_shape_body_committed:
  "is_HeartRateStats
      (JObj [(''last5Minutes'', JNum 95), (''last15Minutes'', JNum 92),
             (''last30Minutes'', JNum 88), (''current'', JNum 98),
             (''lastUpdated'', JStr ''14:30:25'')])
   \<and> is_HeartRateReadings (JArr [])
   \<and> \<not> is_HeartRateReadings (JObj [(''error'', JStr ''unavailable'')])
   \<and> fetchData StatsFirst
        (Response True (JsonResolved
           (JObj [(''last5Minutes'', JNum 95), (''last15Minutes'', JNum 92),
                  (''last30Minutes'', JNum 88), (''current'', JNum 98),
                  (''lastUpdated'', JStr ''14:30:25'')])))
        (Response True (JsonResolved (JObj [(''error'', JStr ''unavailable'')])))
        \<lparr> stats = JObj [(''last5Minutes'', JNum 95), (''last15Minutes'', JNum 92),
                         (''last30Minutes'', JNum 88), (''current'', JNum 98),
                         (''lastUpdated'', JStr ''14:30:25'')],
           readings = JArr [], loading = False, error = None \<rparr>
      = Inr \<lparr> stats = JObj [(''last5Minutes'', JNum 95), (''last15Minutes'', JNum 92),
                              (''last30Minutes'', JNum 88), (''current'', JNum 98),
                              (''lastUpdated'', JStr ''14:30:25'')],
                readings = JObj [(''error'', JStr ''unavailable'')],
                loading = False, error = None \<rparr>"
  by (simp add: is_HeartRateStats_def is_HeartRateReadings_def num_field_def str_field_def
      fetchData_eq delivered_def failure_def)

text \<open>
  Claim C6 asks that every cycle end with \<^verbatim>\<open>loading\<close> cleared and no fault out of
  \<^verbatim>\<open>fetchData\<close>, and that no error be fatal to the controller. The first part holds
  for every input (\<open>fetchData_returns\<close>). The second fails for an error the code does
  not detect. Evaluated at that input: the stats fetch answers with status ok and the
  body \<^verbatim>\<open>null\<close>; the cycle stores \<^verbatim>\<open>null\<close> as the statistics, sets no error and
  clears \<^verbatim>\<open>loading\<close>, so that the content is rendered next, and the content reads
  \<^verbatim>\<open>stats.current\<close> (line 185).
\<close>

theorem null_stats_body_committed:
  "\<not> is_HeartRateStats JNull
   \<and> is_HeartRateReadings (JArr [])
   \<and> fetchData ReadingsFirst (Response True (JsonResolved JNull))
        (Response True (JsonResolved (JArr [])))
        \<lparr> stats = JObj [(''last5Minutes'', JNum 95), (''last15Minutes'', JNum 92),
                         (''last30Minutes'', JNum 88), (''current'', JNum 98),
                         (''lastUpdated'', JStr ''14:30:25'')],
           readings = JArr [], loading = False, error = None \<rparr>
      = Inr \<lparr> stats = JNull, readings = JArr [], loading = False, error = None \<rparr>"
  by (simp add: is_HeartRateStats_def is_HeartRateReadings_def
      fetchData_eq delivered_def failure_def)

text \<open>
  Claim C7. Two cycles in succession that receive the same successful responses end in
  the state that the first of them alone ends in: the statistics and the readings are
  the bodies received, once, and nothing accumulates.
\<close>

theorem cycle_idempotent:
  "run_cycles [(o1, Response True (JsonResolved d1), Response True (JsonResolved d2)),
               (o2, Response True (JsonResolved d1), Response True (JsonResolved d2))] s
     = run_cycles [(o1, Response True (JsonResolved d1), Response True (JsonResolved d2))] s
   \<and> run_cycles [(o1, Response True (JsonResolved d1), Response True (JsonResolved d2))] s
     = Inr \<lparr> stats = d1, readings = d2, loading = False, error = None \<rparr>"
  by (simp add: fetchData_eq delivered_def failure_def split: settle_order.splits)

end
